theory Spec2Isabelle
  imports Complex_Main "HOL-Library.Char_ord" "HOL-Library.List_Lexorder"
begin

section \<open>Inline edge transforms of the second-level workflow\<close>

text \<open>
  \<^verbatim>\<open>def _len(inlist): return len(inlist)\<close> and
  \<^verbatim>\<open>def _dof(inlist): return len(inlist) - 1\<close>.
  Python integers are unbounded and signed, so the results are \<open>int\<close>: the
  subtraction does not truncate at zero (an empty list gives \<open>-1\<close>).
\<close>

definition len :: "'a list \<Rightarrow> int" where
  "len inlist = int (length inlist)"

definition dof :: "'a list \<Rightarrow> int" where
  "dof inlist = int (length inlist) - 1"

definition neg :: "rat \<Rightarrow> rat" where
  "neg val = - val"

section \<open>The confound/event parsing helper\<close>

subsection \<open>Tables\<close>

text \<open>
  The two tables are read with \<^verbatim>\<open>pd.read_csv(..., sep=r'\s+')\<close>; the model starts
  from the parsed tables. Numbers are exact rationals. A cell of the confounds table is
  \<open>None\<close> where pandas holds a missing value (NaN). A data frame is the list of its
  named columns, in header order; pandas makes the names of a header distinct.
\<close>

datatype error = KeyError | AttributeError

type_synonym cell = "rat option"

type_synonym frame = "(string \<times> cell list) list"

definition columns :: "frame \<Rightarrow> string list" where
  "columns df = map fst df"

text \<open>
  \<^verbatim>\<open>df[names]\<close> with a list of names: the named columns in the order asked for, and
  \<^verbatim>\<open>KeyError\<close> as soon as one name is not a column.
\<close>

fun getitem :: "frame \<Rightarrow> string list \<Rightarrow> error + frame" where
  "getitem df [] = Inr []"
| "getitem df (n # ns) =
     (case map_of df n of
        None \<Rightarrow> Inl KeyError
      | Some c \<Rightarrow> (case getitem df ns of Inl e \<Rightarrow> Inl e | Inr d \<Rightarrow> Inr ((n, c) # d)))"

text \<open>\<^verbatim>\<open>df.values\<close>: one list per row (the frames used here have at least one column).\<close>

definition frame_values :: "frame \<Rightarrow> cell list list" where
  "frame_values df = transpose (map snd df)"

text \<open>\<^verbatim>\<open>df.fillna(0.0).values.T.tolist()\<close>: one list per column, missing values zeroed.\<close>

definition fillna :: "rat \<Rightarrow> cell \<Rightarrow> rat" where
  "fillna v c = (case c of None \<Rightarrow> v | Some x \<Rightarrow> x)"

definition fillna_values_T :: "frame \<Rightarrow> rat list list" where
  "fillna_values_T df = map (\<lambda>(n, c). map (fillna 0) c) df"

text \<open>
  The events table: its header and its rows. A row carries a value for each of the four
  columns the function reads; the value of a column that the header does not list is never
  read (reading the attribute raises \<^verbatim>\<open>AttributeError\<close> first).
\<close>

record event_row =
  trial_type :: string
  onset :: rat
  duration :: rat
  amplitudes_value :: rat

record events_table =
  ev_columns :: "string list"
  ev_rows :: "event_row list"

subsection \<open>What the Python runtime decides\<close>

text \<open>
  Three things are decided outside the function: whether a regular expression matches at
  the start of a string (\<^verbatim>\<open>re.match\<close>, behind \<^verbatim>\<open>Series.str.match\<close>), the order in
  which \<^verbatim>\<open>list(set(...))\<close> enumerates a set of strings (hash order, which changes from
  run to run), and the working directory that \<^verbatim>\<open>Path('motion.par').resolve()\<close> is
  resolved against. They are fields of a runtime that the model takes as an argument.
\<close>

record runtime =
  re_match :: "string \<Rightarrow> string \<Rightarrow> bool"
  set_list :: "string list \<Rightarrow> string list"
  cwd :: string

text \<open>An enumeration of a set lists each member once.\<close>

definition set_list_ok :: "runtime \<Rightarrow> bool" where
  "set_list_ok rt = (\<forall>xs. distinct (set_list rt xs) \<and> set (set_list rt xs) = set xs)"

text \<open>
  A pattern without regular-expression metacharacters matches exactly the strings that
  start with it.
\<close>

definition regex_meta :: "char list" where
  "regex_meta = ''.^$*+?{}[]|()'' @ [CHR 0x5C]"

definition plain :: "string \<Rightarrow> bool" where
  "plain p = list_all (\<lambda>c. c \<notin> set regex_meta) p"

definition literal_match :: "string \<Rightarrow> string \<Rightarrow> bool" where
  "literal_match p s = (take (length p) s = p)"

definition re_match_ok :: "runtime \<Rightarrow> bool" where
  "re_match_ok rt = (\<forall>p s. plain p \<longrightarrow> re_match rt p s = literal_match p s)"

text \<open>One such runtime, for running the model on concrete tables.\<close>

definition runtime0 :: runtime where
  "runtime0 = \<lparr>re_match = literal_match, set_list = remdups, cwd = ''/work''\<rparr>"

subsection \<open>Rounding\<close>

text \<open>
  \<^verbatim>\<open>np.round(x, d)\<close> scales by \<open>10 ^ d\<close>, rounds to the nearest integer with ties to
  the even one, and scales back.
\<close>

definition rint :: "rat \<Rightarrow> int" where
  "rint x =
     (let f = \<lfloor>x\<rfloor>; d = x - of_int f
      in if d < 1 / 2 then f else if 1 / 2 < d then f + 1 else if even f then f else f + 1)"

definition np_round :: "rat \<Rightarrow> nat \<Rightarrow> rat" where
  "np_round x d = of_int (rint (x * 10 ^ d)) / 10 ^ d"

subsection \<open>The run-info object\<close>

text \<open>
  A \<^verbatim>\<open>Bunch\<close> has the fields it was created with. \<^verbatim>\<open>scans\<close> and
  \<^verbatim>\<open>conditions\<close> are always given; each of the other five is present (\<open>Some\<close>) when
  its name is in \<^verbatim>\<open>bunch_fields\<close>, and starts as the empty list.
\<close>

record bunch =
  scans :: string
  conditions :: "string list"
  onsets :: "rat list list option"
  durations :: "rat list list option"
  amplitudes :: "rat list list option"
  regressor_names :: "string list option"
  regressors :: "rat list list option"

definition new_field :: "string list \<Rightarrow> string \<Rightarrow> 'a list option" where
  "new_field bunch_fields k = (if k \<in> set bunch_fields then Some [] else None)"

definition new_bunch :: "string \<Rightarrow> string list \<Rightarrow> string list \<Rightarrow> bunch" where
  "new_bunch in_file conds bunch_fields =
     \<lparr>scans = in_file, conditions = conds,
      onsets = new_field bunch_fields ''onsets'',
      durations = new_field bunch_fields ''durations'',
      amplitudes = new_field bunch_fields ''amplitudes'',
      regressor_names = new_field bunch_fields ''regressor_names'',
      regressors = new_field bunch_fields ''regressors''\<rparr>"

text \<open>\<^verbatim>\<open>runinfo.f.append(x)\<close>: reading a field the Bunch does not have raises.\<close>

fun py_append :: "'a list option \<Rightarrow> 'a \<Rightarrow> error + 'a list option" where
  "py_append None x = Inl AttributeError"
| "py_append (Some xs) x = Inr (Some (xs @ [x]))"

subsection \<open>\<open>_bids2nipypeinfo\<close>\<close>

text \<open>
  \<^verbatim>\<open>['_'.join(v) for v in product(('trans', 'rot'), 'xyz')]\<close>
\<close>

fun join :: "string \<Rightarrow> string list \<Rightarrow> string" where
  "join sep [] = []"
| "join sep [x] = x"
| "join sep (x # y # ys) = x @ sep @ join sep (y # ys)"

definition default_motion_columns :: "string list" where
  "default_motion_columns =
     map (\<lambda>(a, b). join ''_'' [a, b]) (List.product [''trans'', ''rot''] (map (\<lambda>c. [c]) ''xyz''))"

text \<open>
  Source line 301, \<^verbatim>\<open>event = events[events.trial_type.str.match(condition)]\<close>: the rows
  whose trial type the condition, read as a regular expression, matches from the start.
\<close>

definition select_event :: "runtime \<Rightarrow> events_table \<Rightarrow> string \<Rightarrow> event_row list" where
  "select_event rt events condition =
     filter (\<lambda>r. re_match rt condition (trial_type r)) (ev_rows events)"

text \<open>
  The body of \<^verbatim>\<open>for condition in runinfo.conditions\<close> (source lines 300 to 308).
  Onsets, durations and the amplitudes column are rounded with the literal \<open>3\<close>.
\<close>

definition condition_step :: "runtime \<Rightarrow> events_table \<Rightarrow> rat \<Rightarrow> bunch \<Rightarrow> string \<Rightarrow> error + bunch" where
  "condition_step rt events amplitude runinfo condition =
     (let event = select_event rt events condition
      in if ''onset'' \<notin> set (ev_columns events) then Inl AttributeError else
         case py_append (onsets runinfo) (map (\<lambda>r. np_round (onset r) 3) event) of
           Inl e \<Rightarrow> Inl e
         | Inr os \<Rightarrow>
         if ''duration'' \<notin> set (ev_columns events) then Inl AttributeError else
         case py_append (durations runinfo) (map (\<lambda>r. np_round (duration r) 3) event) of
           Inl e \<Rightarrow> Inl e
         | Inr ds \<Rightarrow>
         case py_append (amplitudes runinfo)
                (if ''amplitudes'' \<in> set (ev_columns events)
                 then map (\<lambda>r. np_round (amplitudes_value r) 3) event
                 else replicate (length event) amplitude) of
           Inl e \<Rightarrow> Inl e
         | Inr as \<Rightarrow> Inr (runinfo\<lparr>onsets := os, durations := ds, amplitudes := as\<rparr>))"

text \<open>A \<^verbatim>\<open>for\<close> loop whose body may raise: the first error ends it.\<close>

fun for_loop :: "('s \<Rightarrow> 'a \<Rightarrow> error + 's) \<Rightarrow> 'a list \<Rightarrow> 's \<Rightarrow> error + 's" where
  "for_loop body [] s = Inr s"
| "for_loop body (x # xs) s =
     (case body s x of Inl e \<Rightarrow> Inl e | Inr s' \<Rightarrow> for_loop body xs s')"

text \<open>
  Source lines 311 to 318. The names are stored in the run-info first; then the columns
  are selected, and on \<^verbatim>\<open>KeyError\<close> the local list of names is rebound to the
  intersection with the header and the selection is repeated.
\<close>

definition attach_regressors :: "runtime \<Rightarrow> frame \<Rightarrow> string list \<Rightarrow> bunch \<Rightarrow> error + bunch" where
  "attach_regressors rt regress_data regressors_names runinfo =
     (let runinfo = runinfo\<lparr>regressor_names := Some regressors_names\<rparr>;
          selected =
            (case getitem regress_data regressors_names of
               Inr d \<Rightarrow> Inr d
             | Inl KeyError \<Rightarrow>
                 (let regressors_names =
                        set_list rt (filter (\<lambda>n. n \<in> set (columns regress_data)) regressors_names)
                  in getitem regress_data regressors_names)
             | Inl e \<Rightarrow> Inl e)
      in case selected of
           Inl e \<Rightarrow> Inl e
         | Inr d \<Rightarrow> Inr (runinfo\<lparr>regressors := Some (fillna_values_T d)\<rparr>))"

text \<open>
  Source lines 280 to 282: \<^verbatim>\<open>if not motion_columns\<close> holds for \<^verbatim>\<open>None\<close> and for
  the empty list. Source lines 288 and 289: \<^verbatim>\<open>sorted(set(columns) - set(motion_columns))\<close>
  when no names are given; Python sorts strings by code point, which is the lexicographic
  order of \<open>char list\<close>.
\<close>

definition motion_or_default :: "string list option \<Rightarrow> string list" where
  "motion_or_default motion_columns =
     (case motion_columns of
        None \<Rightarrow> default_motion_columns
      | Some m \<Rightarrow> if m = [] then default_motion_columns else m)"

definition names_or_default :: "frame \<Rightarrow> string list \<Rightarrow> string list option \<Rightarrow> string list" where
  "names_or_default regress_data motion_columns regressors_names =
     (case regressors_names of
        None \<Rightarrow> sort (remdups (filter (\<lambda>c. c \<notin> set motion_columns) (columns regress_data)))
      | Some ns \<Rightarrow> ns)"

text \<open>
  The function. \<^verbatim>\<open>regressors_names\<close> and \<^verbatim>\<open>motion_columns\<close> are \<open>None\<close> when the
  caller leaves them out. The result is the list holding the one run-info, the path of the
  motion file, and the rows \<^verbatim>\<open>np.savetxt\<close> writes to it. \<^verbatim>\<open>decimals\<close> is a
  parameter of the source that its body never reads.
\<close>

definition bids2nipypeinfo ::
  "runtime \<Rightarrow> string \<Rightarrow> events_table \<Rightarrow> frame \<Rightarrow> string list option \<Rightarrow> string list option
   \<Rightarrow> nat \<Rightarrow> rat \<Rightarrow> error + (bunch list \<times> string \<times> cell list list)" where
  "bids2nipypeinfo rt in_file events regress_data regressors_names motion_columns decimals amplitude =
     (let bunch_fields = [''onsets'', ''durations'', ''amplitudes''];
          motion_columns = motion_or_default motion_columns;
          out_motion = cwd rt @ ''/motion.par''
      in case getitem regress_data motion_columns of
           Inl e \<Rightarrow> Inl e
         | Inr motion \<Rightarrow>
         let regressors_names = names_or_default regress_data motion_columns regressors_names;
             bunch_fields =
               (if regressors_names \<noteq> [] then bunch_fields @ [''regressor_names''] @ [''regressors'']
                else bunch_fields)
         in if ''trial_type'' \<notin> set (ev_columns events) then Inl AttributeError else
            let runinfo =
                  new_bunch in_file (set_list rt (map trial_type (ev_rows events))) bunch_fields
            in case for_loop (condition_step rt events amplitude) (conditions runinfo) runinfo of
                 Inl e \<Rightarrow> Inl e
               | Inr runinfo \<Rightarrow>
               case (if ''regressor_names'' \<in> set bunch_fields
                     then attach_regressors rt regress_data regressors_names runinfo
                     else Inr runinfo) of
                 Inl e \<Rightarrow> Inl e
               | Inr runinfo \<Rightarrow> Inr ([runinfo], out_motion, frame_values motion))"

subsection \<open>The result in closed form\<close>

text \<open>
  What the loop appends for a condition as its amplitudes, the names whose columns are
  selected in the end, when a run returns, and the run-info it returns. These are the
  terms the function is shown to compute; the theorems below are stated on the function.
\<close>

definition amplitudes_of :: "runtime \<Rightarrow> events_table \<Rightarrow> rat \<Rightarrow> string \<Rightarrow> rat list" where
  "amplitudes_of rt events amplitude c =
     (if ''amplitudes'' \<in> set (ev_columns events)
      then map (\<lambda>r. np_round (amplitudes_value r) 3) (select_event rt events c)
      else replicate (length (select_event rt events c)) amplitude)"

definition loop_ok :: "events_table \<Rightarrow> string list \<Rightarrow> bool" where
  "loop_ok events cs =
     (cs = [] \<or> (''onset'' \<in> set (ev_columns events) \<and> ''duration'' \<in> set (ev_columns events)))"

definition used_names :: "runtime \<Rightarrow> frame \<Rightarrow> string list \<Rightarrow> string list" where
  "used_names rt regress_data names =
     (if set names \<subseteq> set (columns regress_data) then names
      else set_list rt (filter (\<lambda>n. n \<in> set (columns regress_data)) names))"

definition run_ok :: "runtime \<Rightarrow> events_table \<Rightarrow> frame \<Rightarrow> string list \<Rightarrow> string list \<Rightarrow> bool" where
  "run_ok rt events df mcs names =
     (set mcs \<subseteq> set (columns df) \<and> ''trial_type'' \<in> set (ev_columns events)
      \<and> loop_ok events (set_list rt (map trial_type (ev_rows events)))
      \<and> (names = [] \<or> set (used_names rt df names) \<subseteq> set (columns df)))"

definition run_info :: "runtime \<Rightarrow> string \<Rightarrow> events_table \<Rightarrow> frame \<Rightarrow> string list \<Rightarrow> rat \<Rightarrow> bunch" where
  "run_info rt in_file events df names amplitude =
     (let conds = set_list rt (map trial_type (ev_rows events))
      in \<lparr>scans = in_file, conditions = conds,
          onsets = Some (map (\<lambda>c. map (\<lambda>r. np_round (onset r) 3) (select_event rt events c)) conds),
          durations = Some (map (\<lambda>c. map (\<lambda>r. np_round (duration r) 3) (select_event rt events c)) conds),
          amplitudes = Some (map (amplitudes_of rt events amplitude) conds),
          regressor_names = (if names = [] then None else Some names),
          regressors = (if names = [] then None
             else Some (map (\<lambda>n. map (fillna 0) (the (map_of df n))) (used_names rt df names)))\<rparr>)"

subsection \<open>Example tables\<close>

text \<open>
  The events table of the end-to-end scenario: ten rows, trial type \<open>A\<close> on six of them
  and \<open>B\<close> on four, and no amplitudes column. A second events table has a trial type
  that is the start of another one. The confounds table has the six motion columns and two
  more, with a missing first value in each of the two, as fMRIPrep writes them.
\<close>

definition ev_row :: "string \<Rightarrow> rat \<Rightarrow> rat \<Rightarrow> event_row" where
  "ev_row t on dur = \<lparr>trial_type = t, onset = on, duration = dur, amplitudes_value = 0\<rparr>"

definition example_events :: events_table where
  "example_events =
     \<lparr>ev_columns = [''onset'', ''duration'', ''trial_type''],
      ev_rows = [ev_row ''A'' 0 2, ev_row ''B'' (5 / 2) 2, ev_row ''A'' 5 2, ev_row ''A'' (15 / 2) 2,
                 ev_row ''B'' 10 2, ev_row ''A'' (25 / 2) 2, ev_row ''B'' 15 2, ev_row ''A'' (35 / 2) 2,
                 ev_row ''B'' 20 2, ev_row ''A'' (45 / 2) 2]\<rparr>"

definition prefix_events :: events_table where
  "prefix_events =
     \<lparr>ev_columns = [''onset'', ''duration'', ''trial_type''],
      ev_rows = [ev_row ''A'' 0 1, ev_row ''AB'' 2 1, ev_row ''A'' 4 1]\<rparr>"

definition motion_frame :: frame where
  "motion_frame =
     [(''trans_x'', [Some 0, Some (1 / 100)]), (''trans_y'', [Some 0, Some (1 / 50)]),
      (''trans_z'', [Some 0, Some (3 / 100)]), (''rot_x'', [Some 0, Some (1 / 1000)]),
      (''rot_y'', [Some 0, Some (1 / 500)]), (''rot_z'', [Some 0, Some (3 / 1000)])]"

definition example_confounds :: frame where
  "example_confounds =
     [(''framewise_displacement'', [None, Some (1 / 4)]), (''dvars'', [None, Some (3 / 2)])]
     @ motion_frame"

section \<open>The first-level workflow\<close>

text \<open>
  \<^verbatim>\<open>first_level_wf\<close> builds a graph: nodes that wrap an interface with its fixed
  inputs, and connections from an output field of one node to an input field of another.
  The model keeps the graph as the source writes it: each node with its interface name and
  keyword arguments, and the list given to \<^verbatim>\<open>workflow.connect\<close>.
\<close>

datatype param =
    PStr string
  | PNum rat
  | PBool bool
  | PList "param list"
  | PDict "(string \<times> param) list"

record node =
  node_name :: string
  interface :: string
  inputs :: "(string \<times> param) list"
  iterables :: "(string \<times> string list) option"
  mem_gb :: "rat option"
  run_without_submitting :: bool

record workflow =
  wf_name :: string
  connections :: "(node \<times> node \<times> (string \<times> string) list) list"

definition DATA_ITEMS :: "string list" where
  "DATA_ITEMS = [''bold'', ''mask'', ''events'', ''regressors'', ''tr'']"

text \<open>\<^verbatim>\<open>pe.Node(interface, name=...)\<close> with the defaults of the other arguments.\<close>

definition Node :: "string \<Rightarrow> (string \<times> param) list \<Rightarrow> string \<Rightarrow> node" where
  "Node iface args name =
     \<lparr>node_name = name, interface = iface, inputs = args, iterables = None, mem_gb = None,
      run_without_submitting = False\<rparr>"

text \<open>\<^verbatim>\<open>'%02d' % i\<close>, for the \<open>i < 100\<close> the source formats.\<close>

definition fmt_02d :: "nat \<Rightarrow> string" where
  "fmt_02d i = [char_of (48 + i div 10), char_of (48 + i mod 10)]"

text \<open>
  \<^verbatim>\<open>DerivativesDataSink(base_directory=str(output_dir), keep_dtype=False, suffix=...,
  desc='intask')\<close> in a node that runs without submitting.
\<close>

definition derivatives_sink :: "string \<Rightarrow> string \<Rightarrow> string \<Rightarrow> node" where
  "derivatives_sink output_dir sfx name =
     (Node ''DerivativesDataSink''
        [(''base_directory'', PStr output_dir), (''keep_dtype'', PBool False),
         (''suffix'', PStr sfx), (''desc'', PStr ''intask'')] name)
     \<lparr>run_without_submitting := True\<rparr>"

definition first_level_wf ::
  "(string \<times> (string \<times> param) list) list \<Rightarrow> string \<Rightarrow> rat \<Rightarrow> string \<Rightarrow> workflow" where
  "first_level_wf in_files output_dir fwhm name =
     (let datasource =
            (Node ''Function'' [(''function'', PStr ''_dict_ds''),
                               (''output_names'', PList (map PStr DATA_ITEMS)),
                               (''in_dict'', PDict (map (\<lambda>(sub, d). (sub, PDict d)) in_files))]
               ''datasource'')
            \<lparr>iterables := Some (''sub'', sort (map fst in_files))\<rparr>;
          runinfo =
            Node ''Function''
              [(''input_names'',
                PList (map PStr [''in_file'', ''events_file'', ''regressors_file'', ''regressors_names''])),
               (''function'', PStr ''_bids2nipypeinfo''),
               (''output_names'', PList (map PStr [''info'', ''realign_file''])),
               (''regressors_names'',
                PList (map PStr ([''dvars'', ''framewise_displacement'']
                       @ map (\<lambda>i. ''a_comp_cor_'' @ fmt_02d i) [0..<6]
                       @ map (\<lambda>i. ''cosine'' @ fmt_02d i) [0..<4])))]
              ''runinfo'';
          susan = Node ''create_susan_smooth'' [(''inputnode.fwhm'', PNum fwhm)] ''susan_smooth'';
          l1_spec =
            Node ''SpecifyModel''
              [(''parameter_source'', PStr ''FSL''), (''input_units'', PStr ''secs''),
               (''high_pass_filter_cutoff'', PNum 100)] ''l1_spec'';
          l1_model =
            Node ''Level1Design''
              [(''bases'', PDict [(''dgamma'', PDict [(''derivs'', PBool True)])]),
               (''model_serial_correlations'', PBool True),
               (''contrasts'', PList [])] ''l1_model'';
          feat_spec = Node ''FEATModel'' [] ''feat_spec'';
          feat_fit = (Node ''FEAT'' [] ''feat_fit'')\<lparr>mem_gb := Some 12\<rparr>;
          feat_select =
            Node ''SelectFiles''
              [(''templates'',
                PDict [(''cope'', PStr ''stats/cope1.nii.gz''),
                       (''pe'', PStr ''stats/pe[0-9][0-9].nii.gz''),
                       (''tstat'', PStr ''stats/tstat1.nii.gz''),
                       (''varcope'', PStr ''stats/varcope1.nii.gz''),
                       (''zstat'', PStr ''stats/zstat1.nii.gz'')])] ''feat_select'';
          ds_cope = derivatives_sink output_dir ''cope'' ''ds_cope'';
          ds_varcope = derivatives_sink output_dir ''varcope'' ''ds_varcope'';
          ds_zstat = derivatives_sink output_dir ''zstat'' ''ds_zstat'';
          ds_tstat = derivatives_sink output_dir ''tstat'' ''ds_tstat''
      in \<lparr>wf_name = name,
          connections =
            [(datasource, susan, [(''bold'', ''inputnode.in_files''),
                                  (''mask'', ''inputnode.mask_file'')]),
             (datasource, runinfo, [(''events'', ''events_file''),
                                    (''regressors'', ''regressors_file'')]),
             (susan, l1_spec, [(''outputnode.smoothed_files'', ''functional_runs'')]),
             (datasource, l1_spec, [(''tr'', ''time_repetition'')]),
             (datasource, l1_model, [(''tr'', ''interscan_interval'')]),
             (datasource, ds_cope, [(''bold'', ''source_file'')]),
             (datasource, ds_varcope, [(''bold'', ''source_file'')]),
             (datasource, ds_zstat, [(''bold'', ''source_file'')]),
             (datasource, ds_tstat, [(''bold'', ''source_file'')]),
             (susan, runinfo, [(''outputnode.smoothed_files'', ''in_file'')]),
             (runinfo, l1_spec, [(''info'', ''subject_info''),
                                 (''realign_file'', ''realignment_parameters'')]),
             (l1_spec, l1_model, [(''session_info'', ''session_info'')]),
             (l1_model, feat_spec, [(''fsf_files'', ''fsf_file''),
                                    (''ev_files'', ''ev_files'')]),
             (l1_model, feat_fit, [(''fsf_files'', ''fsf_file'')]),
             (feat_fit, feat_select, [(''feat_dir'', ''base_directory'')]),
             (feat_select, ds_cope, [(''cope'', ''in_file'')]),
             (feat_select, ds_varcope, [(''varcope'', ''in_file'')]),
             (feat_select, ds_zstat, [(''zstat'', ''in_file'')]),
             (feat_select, ds_tstat, [(''tstat'', ''in_file'')])]\<rparr>)"

subsection \<open>Reading the graph\<close>

text \<open>
  The nodes of the graph are the ends of its connections. The result types selected are
  the template keys of the \<^verbatim>\<open>SelectFiles\<close> nodes, with their paths. A result type is
  staged where a \<^verbatim>\<open>SelectFiles\<close> output of that name is connected to the
  \<^verbatim>\<open>in_file\<close> of a \<^verbatim>\<open>DerivativesDataSink\<close>; the sink is listed with it.
\<close>

definition wf_nodes :: "workflow \<Rightarrow> node list" where
  "wf_nodes w = remdups (concat (map (\<lambda>(src, dst, fs). [src, dst]) (connections w)))"

definition selected_templates :: "workflow \<Rightarrow> (string \<times> param) list" where
  "selected_templates w =
     concat (map (\<lambda>n. case map_of (inputs n) ''templates'' of Some (PDict d) \<Rightarrow> d | _ \<Rightarrow> [])
                 (filter (\<lambda>n. interface n = ''SelectFiles'') (wf_nodes w)))"

definition staged :: "workflow \<Rightarrow> (string \<times> node) list" where
  "staged w =
     concat (map (\<lambda>(src, dst, fs).
                    if interface src = ''SelectFiles'' \<and> interface dst = ''DerivativesDataSink''
                    then map (\<lambda>(out, inp). (out, dst)) (filter (\<lambda>(out, inp). inp = ''in_file'') fs)
                    else [])
                 (connections w))"

text \<open>The nodes and output fields connected to the input field \<open>inp\<close> of the node named \<open>n\<close>.\<close>

definition feeds :: "workflow \<Rightarrow> string \<Rightarrow> string \<Rightarrow> (string \<times> string) list" where
  "feeds w n inp =
     concat (map (\<lambda>(src, dst, fs).
                    if node_name dst = n
                    then map (\<lambda>(out, i). (node_name src, out)) (filter (\<lambda>(out, i). i = inp) fs)
                    else [])
                 (connections w))"

section \<open>Theorems\<close>

subsection \<open>The function in closed form\<close>

lemma getitem_eq:
  "getitem df ns =
     (if set ns \<subseteq> set (columns df) then Inr (map (\<lambda>n. (n, the (map_of df n))) ns) else Inl KeyError)"
proof (induction ns)
  case Nil
  show ?case by simp
next
  case (Cons n ns)
  show ?case
  proof (cases "map_of df n")
    case None
    then have "n \<notin> set (columns df)"
      by (simp add: columns_def map_of_eq_None_iff)
    with None show ?thesis by simp
  next
    case (Some c)
    then have "n \<in> set (columns df)"
      by (metis columns_def map_of_eq_None_iff option.distinct(1) set_map)
    with Some Cons show ?thesis by simp
  qed
qed

lemma for_loop_conditions:
  assumes "onsets ri = Some os" "durations ri = Some ds" "amplitudes ri = Some as"
  shows "for_loop (condition_step rt events amplitude) cs ri =
     (if loop_ok events cs
      then Inr (ri\<lparr>onsets := Some (os @ map (\<lambda>c. map (\<lambda>r. np_round (onset r) 3) (select_event rt events c)) cs),
                  durations := Some (ds @ map (\<lambda>c. map (\<lambda>r. np_round (duration r) 3) (select_event rt events c)) cs),
                  amplitudes := Some (as @ map (amplitudes_of rt events amplitude) cs)\<rparr>)
      else Inl AttributeError)"
  using assms
proof (induction cs arbitrary: ri os ds as)
  case Nil
  then show ?case by (simp add: loop_ok_def)
next
  case (Cons c cs)
  show ?case
  proof (cases "''onset'' \<in> set (ev_columns events) \<and> ''duration'' \<in> set (ev_columns events)")
    case False
    then show ?thesis using Cons.prems by (auto simp: condition_step_def Let_def loop_ok_def)
  next
    case True
    let ?ev = "select_event rt events c"
    let ?ri = "ri\<lparr>onsets := Some (os @ [map (\<lambda>r. np_round (onset r) 3) ?ev]),
                  durations := Some (ds @ [map (\<lambda>r. np_round (duration r) 3) ?ev]),
                  amplitudes := Some (as @ [amplitudes_of rt events amplitude c])\<rparr>"
    have step: "condition_step rt events amplitude ri c = Inr ?ri"
      using True Cons.prems by (simp add: condition_step_def Let_def amplitudes_of_def)
    have "for_loop (condition_step rt events amplitude) (c # cs) ri =
          for_loop (condition_step rt events amplitude) cs ?ri"
      by (simp add: step)
    also note Cons.IH [of ?ri "os @ [map (\<lambda>r. np_round (onset r) 3) ?ev]"
          "ds @ [map (\<lambda>r. np_round (duration r) 3) ?ev]" "as @ [amplitudes_of rt events amplitude c]"]
    finally show ?thesis using True by (simp add: loop_ok_def)
  qed
qed

lemma attach_regressors_eq:
  "attach_regressors rt df names ri =
     (if set (used_names rt df names) \<subseteq> set (columns df)
      then Inr (ri\<lparr>regressor_names := Some names,
                  regressors := Some (map (\<lambda>n. map (fillna 0) (the (map_of df n))) (used_names rt df names))\<rparr>)
      else Inl KeyError)"
  by (simp add: attach_regressors_def getitem_eq used_names_def fillna_values_T_def comp_def)

lemma bids2nipypeinfo_eq:
  "bids2nipypeinfo rt in_file events df rn mc decimals amplitude =
     (let mcs = motion_or_default mc; names = names_or_default df mcs rn
      in if run_ok rt events df mcs names
         then Inr ([run_info rt in_file events df names amplitude], cwd rt @ ''/motion.par'',
                   frame_values (map (\<lambda>n. (n, the (map_of df n))) mcs))
         else Inl (if \<not> set mcs \<subseteq> set (columns df) then KeyError
                   else if ''trial_type'' \<notin> set (ev_columns events)
                           \<or> \<not> loop_ok events (set_list rt (map trial_type (ev_rows events)))
                   then AttributeError else KeyError))"
proof -
  define mcs where "mcs = motion_or_default mc"
  define names where "names = names_or_default df mcs rn"
  define conds where "conds = set_list rt (map trial_type (ev_rows events))"
  define fields where "fields = (if names \<noteq> [] then [''onsets'', ''durations'', ''amplitudes''] @ [''regressor_names''] @ [''regressors'']
                else [''onsets'', ''durations'', ''amplitudes''])"
  define ri0 where "ri0 = new_bunch in_file conds fields"
  have f0: "onsets ri0 = Some []" "durations ri0 = Some []" "amplitudes ri0 = Some []"
    "conditions ri0 = conds"
    by (simp_all add: ri0_def new_bunch_def new_field_def fields_def)
  have f1: "regressor_names ri0 = (if names = [] then None else Some [])"
    "regressors ri0 = (if names = [] then None else Some [])" "scans ri0 = in_file"
    by (simp_all add: ri0_def new_bunch_def new_field_def fields_def)
  have mem: "''regressor_names'' \<in> set fields \<longleftrightarrow> names \<noteq> []"
    by (simp add: fields_def)
  note loop = for_loop_conditions [OF f0(1) f0(2) f0(3), of rt events amplitude conds]
  have unfold: "bids2nipypeinfo rt in_file events df rn mc decimals amplitude =
    (case getitem df mcs of Inl e \<Rightarrow> Inl e | Inr motion \<Rightarrow>
       if ''trial_type'' \<notin> set (ev_columns events) then Inl AttributeError else
       case for_loop (condition_step rt events amplitude) conds ri0 of Inl e \<Rightarrow> Inl e | Inr ri \<Rightarrow>
       case (if names \<noteq> [] then attach_regressors rt df names ri else Inr ri) of
         Inl e \<Rightarrow> Inl e | Inr ri \<Rightarrow> Inr ([ri], cwd rt @ ''/motion.par'', frame_values motion))"
    unfolding bids2nipypeinfo_def Let_def mcs_def [symmetric] names_def [symmetric]
      conds_def [symmetric] fields_def [symmetric] ri0_def [symmetric] f0(4) mem
    by (rule refl)
  show ?thesis
    unfolding Let_def mcs_def [symmetric] names_def [symmetric] unfold
    apply (simp add: getitem_eq loop attach_regressors_eq run_ok_def conds_def [symmetric]
        run_info_def Let_def)
    apply (auto simp: f0 f1 bunch.equality)
    done
qed

text \<open>A run that returns has met \<open>run_ok\<close> and returns the closed form.\<close>

lemma bids2nipypeinfo_InrD:
  assumes "bids2nipypeinfo rt in_file events df rn mc decimals amplitude = Inr (infos, path, motion)"
  shows "run_ok rt events df (motion_or_default mc) (names_or_default df (motion_or_default mc) rn)"
    and "infos = [run_info rt in_file events df (names_or_default df (motion_or_default mc) rn) amplitude]"
  using assms unfolding bids2nipypeinfo_eq Let_def
  by (simp_all split: if_splits)

lemma run_info_simps:
  "scans (run_info rt f ev df names amp) = f"
  "conditions (run_info rt f ev df names amp) = set_list rt (map trial_type (ev_rows ev))"
  "onsets (run_info rt f ev df names amp) =
     Some (map (\<lambda>c. map (\<lambda>r. np_round (onset r) 3) (select_event rt ev c))
            (set_list rt (map trial_type (ev_rows ev))))"
  "durations (run_info rt f ev df names amp) =
     Some (map (\<lambda>c. map (\<lambda>r. np_round (duration r) 3) (select_event rt ev c))
            (set_list rt (map trial_type (ev_rows ev))))"
  "amplitudes (run_info rt f ev df names amp) =
     Some (map (amplitudes_of rt ev amp) (set_list rt (map trial_type (ev_rows ev))))"
  "regressor_names (run_info rt f ev df names amp) = (if names = [] then None else Some names)"
  "regressors (run_info rt f ev df names amp) =
     (if names = [] then None
      else Some (map (\<lambda>n. map (fillna 0) (the (map_of df n))) (used_names rt df names)))"
  by (simp_all add: run_info_def Let_def)

subsection \<open>The model on the example tables\<close>

lemma default_motion_columns_eq:
  "default_motion_columns = [''trans_x'', ''trans_y'', ''trans_z'', ''rot_x'', ''rot_y'', ''rot_z'']"
  by (simp add: default_motion_columns_def)

lemma example_run:
  "bids2nipypeinfo runtime0 ''sub-01_bold.nii.gz'' example_events example_confounds None None 3 1 =
     Inr ([\<lparr>scans = ''sub-01_bold.nii.gz'', conditions = [''B'', ''A''],
            onsets = Some [[5 / 2, 10, 15, 20], [0, 5, 15 / 2, 25 / 2, 35 / 2, 45 / 2]],
            durations = Some [[2, 2, 2, 2], [2, 2, 2, 2, 2, 2]],
            amplitudes = Some [[1, 1, 1, 1], [1, 1, 1, 1, 1, 1]],
            regressor_names = Some [''dvars'', ''framewise_displacement''],
            regressors = Some [[0, 3 / 2], [0, 1 / 4]]\<rparr>],
          ''/work/motion.par'',
          [[Some 0, Some 0, Some 0, Some 0, Some 0, Some 0],
           [Some (1 / 100), Some (1 / 50), Some (3 / 100), Some (1 / 1000), Some (1 / 500), Some (3 / 1000)]])"
  by code_simp

lemma names_or_default_empty:
  assumes "rn = Some [] \<or> (rn = None \<and> set (columns df) \<subseteq> set mcs)"
  shows "names_or_default df mcs rn = []"
proof -
  have "set (columns df) \<subseteq> set mcs \<Longrightarrow> filter (\<lambda>c. c \<notin> set mcs) (columns df) = []"
    by (auto simp: filter_empty_conv)
  then show ?thesis using assms by (auto simp: names_or_default_def)
qed

lemma motion_only_run:
  "bids2nipypeinfo runtime0 ''sub-01_bold.nii.gz'' example_events motion_frame None None 3 1 =
     Inr ([\<lparr>scans = ''sub-01_bold.nii.gz'', conditions = [''B'', ''A''],
            onsets = Some [[5 / 2, 10, 15, 20], [0, 5, 15 / 2, 25 / 2, 35 / 2, 45 / 2]],
            durations = Some [[2, 2, 2, 2], [2, 2, 2, 2, 2, 2]],
            amplitudes = Some [[1, 1, 1, 1], [1, 1, 1, 1, 1, 1]],
            regressor_names = None, regressors = None\<rparr>],
          ''/work/motion.par'',
          [[Some 0, Some 0, Some 0, Some 0, Some 0, Some 0],
           [Some (1 / 100), Some (1 / 50), Some (3 / 100), Some (1 / 1000), Some (1 / 500), Some (3 / 1000)]])"
  by code_simp

lemma sort_remdups_unique:
  fixes xs ys :: "string list"
  assumes "set xs = set ys" and "distinct ys"
  shows "sort (remdups xs) = sort ys"
proof (rule sorted_distinct_set_unique)
  show "sorted (sort (remdups xs))" by simp
  show "distinct (sort (remdups xs))" by simp
  show "sorted (sort ys)" by simp
  show "distinct (sort ys)" using assms(2) by simp
  show "set (sort (remdups xs)) = set (sort ys)" using assms(1) by simp
qed

lemma length_filter_mono:
  assumes "\<And>x. x \<in> set xs \<Longrightarrow> P x \<Longrightarrow> Q x"
  shows "length (filter P xs) \<le> length (filter Q xs)"
  using assms by (induction xs) auto

lemma length_filter_two:
  assumes "c \<noteq> t"
  shows "length (filter (\<lambda>r. f r = c) xs) + length (filter (\<lambda>r. f r = t) xs)
         = length (filter (\<lambda>r. f r = c \<or> f r = t) xs)"
  using assms by (induction xs) auto

lemma prefix_run:
  "bids2nipypeinfo runtime0 ''sub-01_bold.nii.gz'' prefix_events example_confounds None None 3 1 =
     Inr ([\<lparr>scans = ''sub-01_bold.nii.gz'', conditions = [''AB'', ''A''],
            onsets = Some [[2], [0, 2, 4]],
            durations = Some [[1], [1, 1, 1]],
            amplitudes = Some [[1], [1, 1, 1]],
            regressor_names = Some [''dvars'', ''framewise_displacement''],
            regressors = Some [[0, 3 / 2], [0, 1 / 4]]\<rparr>],
          ''/work/motion.par'',
          [[Some 0, Some 0, Some 0, Some 0, Some 0, Some 0],
           [Some (1 / 100), Some (1 / 50), Some (3 / 100), Some (1 / 1000), Some (1 / 500), Some (3 / 1000)]])"
  by code_simp

subsection \<open>Runtimes\<close>

lemma set_list_ok_runtime0: "set_list_ok runtime0"
  by (simp add: set_list_ok_def runtime0_def)

lemma re_match_ok_runtime0: "re_match_ok runtime0"
  by (simp add: re_match_ok_def runtime0_def)

lemma used_names_subset:
  assumes "set_list_ok rt"
  shows "set (used_names rt df names) \<subseteq> set (columns df)"
  using assms by (auto simp: used_names_def set_list_ok_def)

subsection \<open>Two parameters the body does not follow\<close>

lemma decimals_ignored:
  "bids2nipypeinfo rt in_file events df rn mc d1 amplitude
   = bids2nipypeinfo rt in_file events df rn mc d2 amplitude"
  by (simp add: bids2nipypeinfo_def)

lemma requested_names_kept:
  assumes "bids2nipypeinfo rt in_file events df (Some names) mc decimals amplitude = Inr ([ri], path, motion)"
    and "names \<noteq> []"
  shows "regressor_names ri = Some names"
  using bids2nipypeinfo_InrD(2) [OF assms(1)] assms(2)
  by (simp add: run_info_simps names_or_default_def)

subsection \<open>The claims\<close>

text \<open>
  C6. For every list, \<open>_dof\<close> returns its length minus one and \<open>_len\<close> returns its
  length; in particular, for a collection of four per-subject contrast maps the
  degrees of freedom are 3 and the count is 4.
\<close>

theorem dof_len_lists:
  "dof inlist = int (length inlist) - 1 \<and> len inlist = int (length inlist)
   \<and> dof [m1, m2, m3, m4] = 3 \<and> len [m1, m2, m3, m4] = 4"
  by (simp add: dof_def len_def)

text \<open>
  C5. When the events table has no amplitudes column, every run that returns gives one
  amplitude list per condition, of the same length as the onset list of that condition and
  filled with the default amplitude passed to the function.
\<close>

theorem amplitudes_default_fill:
  assumes "bids2nipypeinfo rt in_file events df rn mc decimals amplitude = Inr (infos, path, motion)"
    and "''amplitudes'' \<notin> set (ev_columns events)"
  shows "\<exists>ri ons amps. infos = [ri] \<and> onsets ri = Some ons \<and> amplitudes ri = Some amps
           \<and> length amps = length ons
           \<and> (\<forall>i<length ons. amps ! i = replicate (length (ons ! i)) amplitude)"
proof -
  let ?ri = "run_info rt in_file events df (names_or_default df (motion_or_default mc) rn) amplitude"
  have "infos = [?ri]" by (rule bids2nipypeinfo_InrD(2) [OF assms(1)])
  then show ?thesis using assms(2)
    by (simp add: run_info_simps amplitudes_of_def)
qed

theorem amplitudes_default_fill_witness:
  "\<exists>ri ons amps.
     bids2nipypeinfo runtime0 ''sub-01_bold.nii.gz'' example_events example_confounds None None 3 1
       = Inr ([ri], ''/work/motion.par'',
              [[Some 0, Some 0, Some 0, Some 0, Some 0, Some 0],
               [Some (1 / 100), Some (1 / 50), Some (3 / 100), Some (1 / 1000), Some (1 / 500), Some (3 / 1000)]])
     \<and> ''amplitudes'' \<notin> set (ev_columns example_events)
     \<and> onsets ri = Some ons \<and> amplitudes ri = Some amps \<and> length amps = length ons
     \<and> length ons = 2
     \<and> amps ! 0 = replicate (length (ons ! 0)) 1 \<and> amps ! 1 = replicate (length (ons ! 1)) 1"
proof -
  have h: "''amplitudes'' \<notin> set (ev_columns example_events)"
    by (simp add: example_events_def)
  from amplitudes_default_fill [OF example_run h] example_run h
  show ?thesis by auto
qed

text \<open>
  C10. When the resolved list of regressor names is empty (the caller passes the empty
  list, or passes none and the confounds table has no column besides the motion columns),
  the run-info of every run that returns has neither a regressor-names field nor a
  regressors field, and has the onsets, durations and amplitudes fields.
\<close>

theorem no_names_no_regressor_fields:
  assumes "bids2nipypeinfo rt in_file events df rn mc decimals amplitude = Inr (infos, path, motion)"
    and "rn = Some [] \<or> (rn = None \<and> set (columns df) \<subseteq> set (motion_or_default mc))"
  shows "\<exists>ri. infos = [ri] \<and> regressor_names ri = None \<and> regressors ri = None
           \<and> onsets ri \<noteq> None \<and> durations ri \<noteq> None \<and> amplitudes ri \<noteq> None"
proof -
  have "names_or_default df (motion_or_default mc) rn = []"
    by (rule names_or_default_empty [OF assms(2)])
  with bids2nipypeinfo_InrD(2) [OF assms(1)] show ?thesis
    by (simp add: run_info_simps)
qed

theorem no_names_no_regressor_fields_witness:
  "\<exists>ri. bids2nipypeinfo runtime0 ''sub-01_bold.nii.gz'' example_events motion_frame None None 3 1
          = Inr ([ri], ''/work/motion.par'',
              [[Some 0, Some 0, Some 0, Some 0, Some 0, Some 0],
               [Some (1 / 100), Some (1 / 50), Some (3 / 100), Some (1 / 1000), Some (1 / 500), Some (3 / 1000)]])
     \<and> set (columns motion_frame) \<subseteq> set (motion_or_default None)
     \<and> regressor_names ri = None \<and> regressors ri = None
     \<and> onsets ri \<noteq> None \<and> durations ri \<noteq> None \<and> amplitudes ri \<noteq> None"
proof -
  have h: "set (columns motion_frame) \<subseteq> set (motion_or_default None)"
    by (simp add: columns_def motion_frame_def motion_or_default_def default_motion_columns_eq)
  then have "None = Some [] \<or> (None = (None :: string list option)
      \<and> set (columns motion_frame) \<subseteq> set (motion_or_default None))"
    by simp
  from no_names_no_regressor_fields [OF motion_only_run this] motion_only_run h
  show ?thesis by auto
qed

text \<open>
  C9. When the resolved list of regressor names is not empty, the regressors field of every
  run that returns holds one list per selected column (the names as given when all are
  columns, their intersection with the header otherwise); each entry is \<open>0\<close> where the
  cell of the table is missing and the cell's value otherwise.
\<close>

theorem regressors_fillna_zero:
  assumes "bids2nipypeinfo rt in_file events df rn mc decimals amplitude = Inr (infos, path, motion)"
    and "names = names_or_default df (motion_or_default mc) rn" and "names \<noteq> []"
  shows "\<exists>ri m used. infos = [ri] \<and> regressors ri = Some m
           \<and> used = (if set names \<subseteq> set (columns df) then names
                      else set_list rt (filter (\<lambda>n. n \<in> set (columns df)) names))
           \<and> set used \<subseteq> set (columns df) \<and> length m = length used
           \<and> (\<forall>j<length used. \<exists>col. map_of df (used ! j) = Some col \<and> length (m ! j) = length col
                 \<and> (\<forall>i<length col. m ! j ! i = (case col ! i of None \<Rightarrow> 0 | Some v \<Rightarrow> v)))"
proof -
  let ?used = "used_names rt df names"
  let ?m = "map (\<lambda>n. map (fillna 0) (the (map_of df n))) ?used"
  let ?ri = "run_info rt in_file events df names amplitude"
  have ri: "infos = [?ri]"
    using bids2nipypeinfo_InrD(2) [OF assms(1)] assms(2) by simp
  have "run_ok rt events df (motion_or_default mc) names"
    using bids2nipypeinfo_InrD(1) [OF assms(1)] assms(2) by simp
  then have sub: "set ?used \<subseteq> set (columns df)"
    using assms(3) by (simp add: run_ok_def)
  have cols: "\<exists>col. map_of df (?used ! j) = Some col \<and> length (?m ! j) = length col
                 \<and> (\<forall>i<length col. ?m ! j ! i = (case col ! i of None \<Rightarrow> 0 | Some v \<Rightarrow> v))"
    if "j < length ?used" for j
  proof -
    from that sub have "?used ! j \<in> set (columns df)"
      by (meson nth_mem subsetD)
    then have "map_of df (?used ! j) \<noteq> None"
      by (simp add: columns_def map_of_eq_None_iff)
    then obtain col where col: "map_of df (?used ! j) = Some col" by blast
    with that show ?thesis by (simp add: fillna_def)
  qed
  have "regressors ?ri = Some ?m"
    using assms(3) by (simp add: run_info_simps)
  moreover have "?used = (if set names \<subseteq> set (columns df) then names
                      else set_list rt (filter (\<lambda>n. n \<in> set (columns df)) names))"
    by (simp add: used_names_def)
  moreover have "length ?m = length ?used" by simp
  ultimately show ?thesis using ri sub cols by blast
qed

theorem regressors_fillna_zero_witness:
  "\<exists>ri m. bids2nipypeinfo runtime0 ''sub-01_bold.nii.gz'' example_events example_confounds None None 3 1
          = Inr ([ri], ''/work/motion.par'',
              [[Some 0, Some 0, Some 0, Some 0, Some 0, Some 0],
               [Some (1 / 100), Some (1 / 50), Some (3 / 100), Some (1 / 1000), Some (1 / 500), Some (3 / 1000)]])
     \<and> names_or_default example_confounds (motion_or_default None) None = [''dvars'', ''framewise_displacement'']
     \<and> map_of example_confounds ''dvars'' = Some [None, Some (3 / 2)]
     \<and> regressors ri = Some m \<and> m ! 0 = [0, 3 / 2]"
proof -
  have n: "names_or_default example_confounds (motion_or_default None) None = [''dvars'', ''framewise_displacement'']"
    by code_simp
  have c: "map_of example_confounds ''dvars'' = Some [None, Some (3 / 2)]"
    by (simp add: example_confounds_def)
  from regressors_fillna_zero [OF example_run n [symmetric]] example_run n c
  show ?thesis by auto
qed

text \<open>
  C4. When the caller gives neither regressor names nor motion columns, and the columns
  of the confounds table are the six motion columns and \<open>N\<close> others, the names the
  function derives are those \<open>N\<close> columns in lexicographic order; every run that returns
  stores them in the run-info (which has no regressor-names field when \<open>N = 0\<close>).
\<close>

theorem default_names_sorted_non_motion:
  assumes "bids2nipypeinfo rt in_file events df None None decimals amplitude = Inr (infos, path, motion)"
    and "set (columns df) = set [''trans_x'', ''trans_y'', ''trans_z'', ''rot_x'', ''rot_y'', ''rot_z''] \<union> set others"
    and "set others \<inter> set [''trans_x'', ''trans_y'', ''trans_z'', ''rot_x'', ''rot_y'', ''rot_z''] = {}"
    and "distinct others"
  shows "\<exists>ri. infos = [ri]
           \<and> regressor_names ri = (if others = [] then None else Some (sort others))
           \<and> names_or_default df (motion_or_default None) None = sort others
           \<and> sorted (sort others) \<and> set (sort others) = set others
           \<and> length (sort others) = length others"
proof -
  let ?six = "[''trans_x'', ''trans_y'', ''trans_z'', ''rot_x'', ''rot_y'', ''rot_z'']"
  have m: "motion_or_default None = ?six"
    by (simp add: motion_or_default_def default_motion_columns_eq)
  have "set (filter (\<lambda>c. c \<notin> set ?six) (columns df)) = set others"
    using assms(2,3) by auto
  then have n: "names_or_default df ?six None = sort others"
    unfolding names_or_default_def using assms(4)
    by (simp add: sort_remdups_unique)
  have e: "(sort others = []) = (others = [])"
    by (metis length_sort length_0_conv)
  from bids2nipypeinfo_InrD(2) [OF assms(1)] m n e show ?thesis
    by (simp add: run_info_simps)
qed

theorem default_names_sorted_non_motion_witness:
  "\<exists>ri. bids2nipypeinfo runtime0 ''sub-01_bold.nii.gz'' example_events example_confounds None None 3 1
          = Inr ([ri], ''/work/motion.par'',
              [[Some 0, Some 0, Some 0, Some 0, Some 0, Some 0],
               [Some (1 / 100), Some (1 / 50), Some (3 / 100), Some (1 / 1000), Some (1 / 500), Some (3 / 1000)]])
     \<and> set (columns example_confounds)
         = set [''trans_x'', ''trans_y'', ''trans_z'', ''rot_x'', ''rot_y'', ''rot_z'']
           \<union> set [''framewise_displacement'', ''dvars'']
     \<and> regressor_names ri = Some [''dvars'', ''framewise_displacement'']"
proof -
  let ?others = "[''framewise_displacement'', ''dvars'']"
  have a: "set (columns example_confounds)
         = set [''trans_x'', ''trans_y'', ''trans_z'', ''rot_x'', ''rot_y'', ''rot_z''] \<union> set ?others"
    by (auto simp: columns_def example_confounds_def motion_frame_def)
  have b: "set ?others \<inter> set [''trans_x'', ''trans_y'', ''trans_z'', ''rot_x'', ''rot_y'', ''rot_z''] = {}"
    by simp
  have c: "distinct ?others" by simp
  have s: "sort ?others = [''dvars'', ''framewise_displacement'']" by code_simp
  from default_names_sorted_non_motion [OF example_run a b c] example_run a s
  show ?thesis by auto
qed

text \<open>
  C8. The rows of a condition are those whose trial type the condition matches as a regular
  expression from the start, not those whose trial type equals it. In every run that
  returns, the onset and duration lists of a condition \<open>c\<close> hold the rounded values of
  exactly the matched rows, and the amplitude list has their number of entries; so when
  \<open>c\<close> matches itself and also another trial type \<open>t\<close> (as \<open>A\<close> matches \<open>AB\<close>), the three
  lists of \<open>c\<close> have an entry for every row of type \<open>c\<close> and for every row of type \<open>t\<close>.
\<close>

theorem condition_rows_by_regex_match:
  assumes "bids2nipypeinfo rt in_file events df rn mc decimals amplitude = Inr ([ri], path, motion)"
    and "i < length (conditions ri)" and "c = conditions ri ! i"
    and "re_match rt c c" and "re_match rt c t" and "t \<noteq> c"
  shows "\<exists>ons durs amps. onsets ri = Some ons \<and> durations ri = Some durs \<and> amplitudes ri = Some amps
           \<and> ons ! i = map (\<lambda>r. np_round (onset r) 3)
                          (filter (\<lambda>r. re_match rt c (trial_type r)) (ev_rows events))
           \<and> durs ! i = map (\<lambda>r. np_round (duration r) 3)
                          (filter (\<lambda>r. re_match rt c (trial_type r)) (ev_rows events))
           \<and> length (amps ! i) = length (filter (\<lambda>r. re_match rt c (trial_type r)) (ev_rows events))
           \<and> length (filter (\<lambda>r. trial_type r = c) (ev_rows events))
               + length (filter (\<lambda>r. trial_type r = t) (ev_rows events)) \<le> length (ons ! i)
           \<and> length (filter (\<lambda>r. trial_type r = c) (ev_rows events))
               + length (filter (\<lambda>r. trial_type r = t) (ev_rows events)) \<le> length (durs ! i)
           \<and> length (filter (\<lambda>r. trial_type r = c) (ev_rows events))
               + length (filter (\<lambda>r. trial_type r = t) (ev_rows events)) \<le> length (amps ! i)"
proof -
  let ?names = "names_or_default df (motion_or_default mc) rn"
  let ?rows = "ev_rows events"
  let ?conds = "set_list rt (map trial_type ?rows)"
  let ?sel = "filter (\<lambda>r. re_match rt c (trial_type r)) ?rows"
  have ri: "ri = run_info rt in_file events df ?names amplitude"
    using bids2nipypeinfo_InrD(2) [OF assms(1)] by simp
  have conds: "conditions ri = ?conds" by (simp add: ri run_info_simps)
  with assms(2,3) have i: "i < length ?conds" and c: "?conds ! i = c" by simp_all
  have sel: "select_event rt events c = ?sel" by (simp add: select_event_def)
  have "length (filter (\<lambda>r. trial_type r = c) ?rows) + length (filter (\<lambda>r. trial_type r = t) ?rows)
        = length (filter (\<lambda>r. trial_type r = c \<or> trial_type r = t) ?rows)"
    using assms(6) by (simp add: length_filter_two)
  also have "\<dots> \<le> length ?sel"
    using assms(4,5) by (intro length_filter_mono) auto
  finally have le: "length (filter (\<lambda>r. trial_type r = c) ?rows)
        + length (filter (\<lambda>r. trial_type r = t) ?rows) \<le> length ?sel" .
  have amp: "length (amplitudes_of rt events amplitude c) = length ?sel"
    by (simp add: amplitudes_of_def sel)
  show ?thesis
    using i c le amp by (simp add: ri run_info_simps sel)
qed

theorem condition_rows_by_regex_match_witness:
  "\<exists>ri ons. bids2nipypeinfo runtime0 ''sub-01_bold.nii.gz'' prefix_events example_confounds None None 3 1
          = Inr ([ri], ''/work/motion.par'',
              [[Some 0, Some 0, Some 0, Some 0, Some 0, Some 0],
               [Some (1 / 100), Some (1 / 50), Some (3 / 100), Some (1 / 1000), Some (1 / 500), Some (3 / 1000)]])
     \<and> conditions ri ! 1 = ''A'' \<and> re_match runtime0 ''A'' ''A'' \<and> re_match runtime0 ''A'' ''AB''
     \<and> onsets ri = Some ons
     \<and> length (filter (\<lambda>r. trial_type r = ''A'') (ev_rows prefix_events)) = 2
     \<and> length (filter (\<lambda>r. trial_type r = ''AB'') (ev_rows prefix_events)) = 1
     \<and> 2 + 1 \<le> length (ons ! 1)"
proof -
  let ?ri = "\<lparr>scans = ''sub-01_bold.nii.gz'', conditions = [''AB'', ''A''],
            onsets = Some [[2], [0, 2, 4]],
            durations = Some [[1], [1, 1, 1]],
            amplitudes = Some [[1], [1, 1, 1]],
            regressor_names = Some [''dvars'', ''framewise_displacement''],
            regressors = Some [[0, 3 / 2], [0, 1 / 4 :: rat]]\<rparr>"
  have i: "1 < length (conditions ?ri)" by simp
  have c: "''A'' = conditions ?ri ! 1" by simp
  have m1: "re_match runtime0 ''A'' ''A''" by (simp add: runtime0_def literal_match_def)
  have m2: "re_match runtime0 ''A'' ''AB''" by (simp add: runtime0_def literal_match_def)
  have ne: "''AB'' \<noteq> ''A''" by simp
  have n1: "length (filter (\<lambda>r. trial_type r = ''A'') (ev_rows prefix_events)) = 2"
    by (simp add: prefix_events_def ev_row_def)
  have n2: "length (filter (\<lambda>r. trial_type r = ''AB'') (ev_rows prefix_events)) = 1"
    by (simp add: prefix_events_def ev_row_def)
  from condition_rows_by_regex_match [OF prefix_run i c m1 m2 ne] prefix_run m1 m2 n1 n2
  show ?thesis by auto
qed

text \<open>
  C7. For an events table of ten rows with the trial type \<open>A\<close> on six rows and \<open>B\<close> on
  four, with the three columns the function reads, and a confounds table that has the
  motion columns, the function returns a run-info with exactly two conditions, \<open>A\<close> and
  \<open>B\<close> in the order the runtime enumerates them, whose onset lists have six entries for
  \<open>A\<close> and four for \<open>B\<close>.
\<close>

theorem two_trial_types_six_and_four:
  assumes "set_list_ok rt" and "re_match_ok rt"
    and "{''trial_type'', ''onset'', ''duration''} \<subseteq> set (ev_columns events)"
    and "set (motion_or_default mc) \<subseteq> set (columns df)"
    and "length (ev_rows events) = 10"
    and "length (filter (\<lambda>r. trial_type r = ''A'') (ev_rows events)) = 6"
    and "length (filter (\<lambda>r. trial_type r = ''B'') (ev_rows events)) = 4"
  shows "\<exists>ri path motion ons.
           bids2nipypeinfo rt in_file events df rn mc decimals amplitude = Inr ([ri], path, motion)
           \<and> length (conditions ri) = 2 \<and> set (conditions ri) = {''A'', ''B''}
           \<and> onsets ri = Some ons \<and> length ons = 2
           \<and> (\<forall>i<2. length (ons ! i) = (if conditions ri ! i = ''A'' then 6 else 4))"
proof -
  let ?rows = "ev_rows events"
  let ?conds = "set_list rt (map trial_type ?rows)"
  let ?names = "names_or_default df (motion_or_default mc) rn"
  let ?ri = "run_info rt in_file events df ?names amplitude"
  have ab: "trial_type r = ''A'' \<or> trial_type r = ''B''" if "r \<in> set ?rows" for r
  proof (rule ccontr)
    assume "\<not> ?thesis"
    with that have "length (filter (\<lambda>r. trial_type r = ''A'' \<or> trial_type r = ''B'') ?rows) < length ?rows"
      by (intro length_filter_less) auto
    moreover have "length (filter (\<lambda>r. trial_type r = ''A'' \<or> trial_type r = ''B'') ?rows) = 6 + 4"
      using length_filter_two [of "''A''" "''B''" trial_type ?rows] assms(6,7) by simp
    ultimately show False using assms(5) by simp
  qed
  have "filter (\<lambda>r. trial_type r = ''A'') ?rows \<noteq> []" using assms(6) by auto
  then have a: "''A'' \<in> set (map trial_type ?rows)"
    by (force simp: filter_empty_conv)
  have "filter (\<lambda>r. trial_type r = ''B'') ?rows \<noteq> []" using assms(7) by auto
  then have b: "''B'' \<in> set (map trial_type ?rows)"
    by (force simp: filter_empty_conv)
  have types: "set (map trial_type ?rows) = {''A'', ''B''}"
    using a b ab by auto
  have dist: "distinct ?conds" and cset: "set ?conds = {''A'', ''B''}"
    using assms(1) types by (simp_all add: set_list_ok_def)
  have "length ?conds = card (set ?conds)"
    using dist by (simp add: distinct_card)
  then have len: "length ?conds = 2" by (simp add: cset)
  have pa: "plain ''A''" and pb: "plain ''B''"
    by (simp_all add: plain_def regex_meta_def)
  have ma: "re_match rt ''A'' s = literal_match ''A'' s" for s
    using assms(2) pa by (simp add: re_match_ok_def)
  have mb: "re_match rt ''B'' s = literal_match ''B'' s" for s
    using assms(2) pb by (simp add: re_match_ok_def)
  have la: "literal_match ''A'' (trial_type r) = (trial_type r = ''A'')" if "r \<in> set ?rows" for r
    using ab [OF that] by (auto simp: literal_match_def)
  have lb: "literal_match ''B'' (trial_type r) = (trial_type r = ''B'')" if "r \<in> set ?rows" for r
    using ab [OF that] by (auto simp: literal_match_def)
  have "select_event rt events ''A'' = filter (\<lambda>r. trial_type r = ''A'') ?rows"
    unfolding select_event_def ma
    by (rule filter_cong) (simp_all add: la)
  then have sa: "length (select_event rt events ''A'') = 6" using assms(6) by simp
  have "select_event rt events ''B'' = filter (\<lambda>r. trial_type r = ''B'') ?rows"
    unfolding select_event_def mb
    by (rule filter_cong) (simp_all add: lb)
  then have sb: "length (select_event rt events ''B'') = 4" using assms(7) by simp
  have ok: "run_ok rt events df (motion_or_default mc) ?names"
    using assms(3,4) used_names_subset [OF assms(1)] by (simp add: run_ok_def loop_ok_def)
  have run: "bids2nipypeinfo rt in_file events df rn mc decimals amplitude =
      Inr ([?ri], cwd rt @ ''/motion.par'',
           frame_values (map (\<lambda>n. (n, the (map_of df n))) (motion_or_default mc)))"
    using ok by (simp add: bids2nipypeinfo_eq Let_def)
  have each: "length (map (\<lambda>c. map (\<lambda>r. np_round (onset r) 3) (select_event rt events c)) ?conds ! i)
              = (if ?conds ! i = ''A'' then 6 else 4)" if "i < 2" for i
  proof -
    from that len have i: "i < length ?conds" by simp
    then have "?conds ! i \<in> {''A'', ''B''}" using cset nth_mem by blast
    then show ?thesis using i sa sb by auto
  qed
  show ?thesis
    using run len cset each by (simp add: run_info_simps)
qed

theorem two_trial_types_six_and_four_witness:
  "\<exists>ri ons. bids2nipypeinfo runtime0 ''sub-01_bold.nii.gz'' example_events example_confounds None None 3 1
          = Inr ([ri], ''/work/motion.par'',
              [[Some 0, Some 0, Some 0, Some 0, Some 0, Some 0],
               [Some (1 / 100), Some (1 / 50), Some (3 / 100), Some (1 / 1000), Some (1 / 500), Some (3 / 1000)]])
     \<and> length (ev_rows example_events) = 10
     \<and> length (filter (\<lambda>r. trial_type r = ''A'') (ev_rows example_events)) = 6
     \<and> length (filter (\<lambda>r. trial_type r = ''B'') (ev_rows example_events)) = 4
     \<and> conditions ri = [''B'', ''A''] \<and> onsets ri = Some ons
     \<and> length (ons ! 0) = 4 \<and> length (ons ! 1) = 6"
proof -
  have h: "{''trial_type'', ''onset'', ''duration''} \<subseteq> set (ev_columns example_events)"
    by (simp add: example_events_def)
  have m: "set (motion_or_default None) \<subseteq> set (columns example_confounds)"
    by (simp add: motion_or_default_def default_motion_columns_eq columns_def
        example_confounds_def motion_frame_def)
  have n: "length (ev_rows example_events) = 10"
    by (simp add: example_events_def)
  have a: "length (filter (\<lambda>r. trial_type r = ''A'') (ev_rows example_events)) = 6"
    by (simp add: example_events_def ev_row_def)
  have b: "length (filter (\<lambda>r. trial_type r = ''B'') (ev_rows example_events)) = 4"
    by (simp add: example_events_def ev_row_def)
  from two_trial_types_six_and_four [OF set_list_ok_runtime0 re_match_ok_runtime0 h m n a b,
      of "''sub-01_bold.nii.gz''" None 3 1]
  show ?thesis using example_run n a b by auto
qed

text \<open>
  C1. The claim: when a requested regressor name is not a column of the confounds table,
  the function falls back to the names that are columns, and the regressor names stored in
  the run-info leave out the absent ones. On the example confounds table, asked for
  \<open>dvars\<close> and the absent \<open>csf\<close>, the function returns, and its regressors hold the one
  column \<open>dvars\<close>; the stored names are still \<open>dvars\<close> and \<open>csf\<close>, since they were stored
  before the fallback rebinds the local list.
\<close>

theorem absent_name_stays_in_regressor_names:
  "bids2nipypeinfo runtime0 ''sub-01_bold.nii.gz'' example_events example_confounds
     (Some [''dvars'', ''csf'']) None 3 1 =
     Inr ([\<lparr>scans = ''sub-01_bold.nii.gz'', conditions = [''B'', ''A''],
            onsets = Some [[5 / 2, 10, 15, 20], [0, 5, 15 / 2, 25 / 2, 35 / 2, 45 / 2]],
            durations = Some [[2, 2, 2, 2], [2, 2, 2, 2, 2, 2]],
            amplitudes = Some [[1, 1, 1, 1], [1, 1, 1, 1, 1, 1]],
            regressor_names = Some [''dvars'', ''csf''],
            regressors = Some [[0, 3 / 2]]\<rparr>],
          ''/work/motion.par'',
          [[Some 0, Some 0, Some 0, Some 0, Some 0, Some 0],
           [Some (1 / 100), Some (1 / 50), Some (3 / 100), Some (1 / 1000), Some (1 / 500), Some (3 / 1000)]])
   \<and> ''csf'' \<notin> set (columns example_confounds)"
  by code_simp

text \<open>
  C2. The claim: onsets and durations are rounded to \<open>decimals\<close> places. Called with
  \<open>decimals = 1\<close> on a row with onset and duration \<open>5/32 = 0.15625\<close>, the function
  returns \<open>39/250 = 0.156\<close> for both, the value rounded to three places; rounded to one
  place it is \<open>1/5\<close>.
\<close>

theorem onsets_rounded_to_three_places_whatever_decimals:
  "bids2nipypeinfo runtime0 ''sub-01_bold.nii.gz''
     \<lparr>ev_columns = [''onset'', ''duration'', ''trial_type''], ev_rows = [ev_row ''A'' (5 / 32) (5 / 32)]\<rparr>
     motion_frame None None 1 1 =
     Inr ([\<lparr>scans = ''sub-01_bold.nii.gz'', conditions = [''A''],
            onsets = Some [[39 / 250]], durations = Some [[39 / 250]], amplitudes = Some [[1]],
            regressor_names = None, regressors = None\<rparr>],
          ''/work/motion.par'',
          [[Some 0, Some 0, Some 0, Some 0, Some 0, Some 0],
           [Some (1 / 100), Some (1 / 50), Some (3 / 100), Some (1 / 1000), Some (1 / 500), Some (3 / 1000)]])
   \<and> np_round (5 / 32) 1 = 1 / 5 \<and> np_round (5 / 32) 3 = 39 / 250"
  by code_simp

text \<open>
  C3, as amended. The first-level workflow selects five result types (cope, pe, tstat,
  varcope, zstat), each by a fixed path template relative to the model-fit directory, and
  stages four of them (cope, varcope, zstat, tstat): each goes to the input file of a
  derivatives sink whose base directory is the output directory, whose suffix is the result
  type, and whose source file is the functional image of the subject the data source
  iterates over. The pe images are selected and not staged. The selection is made from the
  model-fit output: \<open>feat_select\<close> is the only file selector of the workflow, and its base
  directory is fed by the \<open>feat_dir\<close> output of \<open>feat_fit\<close>, the node that runs FEAT, and by
  nothing else.
\<close>

theorem first_level_selects_five_stages_four:
  "selected_templates (first_level_wf in_files output_dir fwhm name) =
     [(''cope'', PStr ''stats/cope1.nii.gz''), (''pe'', PStr ''stats/pe[0-9][0-9].nii.gz''),
      (''tstat'', PStr ''stats/tstat1.nii.gz''), (''varcope'', PStr ''stats/varcope1.nii.gz''),
      (''zstat'', PStr ''stats/zstat1.nii.gz'')]
   \<and> map (\<lambda>(k, n). (k, node_name n, interface n, map_of (inputs n) ''base_directory'',
                      map_of (inputs n) ''suffix'',
                      feeds (first_level_wf in_files output_dir fwhm name) (node_name n) ''source_file''))
        (staged (first_level_wf in_files output_dir fwhm name)) =
     [(''cope'', ''ds_cope'', ''DerivativesDataSink'', Some (PStr output_dir), Some (PStr ''cope''),
       [(''datasource'', ''bold'')]),
      (''varcope'', ''ds_varcope'', ''DerivativesDataSink'', Some (PStr output_dir), Some (PStr ''varcope''),
       [(''datasource'', ''bold'')]),
      (''zstat'', ''ds_zstat'', ''DerivativesDataSink'', Some (PStr output_dir), Some (PStr ''zstat''),
       [(''datasource'', ''bold'')]),
      (''tstat'', ''ds_tstat'', ''DerivativesDataSink'', Some (PStr output_dir), Some (PStr ''tstat''),
       [(''datasource'', ''bold'')])]
   \<and> map (\<lambda>n. iterables n)
        (filter (\<lambda>n. node_name n = ''datasource'') (wf_nodes (first_level_wf in_files output_dir fwhm name)))
     = [Some (''sub'', sort (map fst in_files))]
   \<and> map node_name (filter (\<lambda>n. interface n = ''SelectFiles'')
                          (wf_nodes (first_level_wf in_files output_dir fwhm name)))
     = [''feat_select'']
   \<and> feeds (first_level_wf in_files output_dir fwhm name) ''feat_select'' ''base_directory''
     = [(''feat_fit'', ''feat_dir'')]
   \<and> map interface (filter (\<lambda>n. node_name n = ''feat_fit'')
                          (wf_nodes (first_level_wf in_files output_dir fwhm name)))
     = [''FEAT'']"
proof (intro conjI)
  show "selected_templates (first_level_wf in_files output_dir fwhm name) =
     [(''cope'', PStr ''stats/cope1.nii.gz''), (''pe'', PStr ''stats/pe[0-9][0-9].nii.gz''),
      (''tstat'', PStr ''stats/tstat1.nii.gz''), (''varcope'', PStr ''stats/varcope1.nii.gz''),
      (''zstat'', PStr ''stats/zstat1.nii.gz'')]"
    by (simp add: selected_templates_def first_level_wf_def wf_nodes_def Let_def Node_def
        derivatives_sink_def)
  show "map (\<lambda>(k, n). (k, node_name n, interface n, map_of (inputs n) ''base_directory'',
                      map_of (inputs n) ''suffix'',
                      feeds (first_level_wf in_files output_dir fwhm name) (node_name n) ''source_file''))
        (staged (first_level_wf in_files output_dir fwhm name)) =
     [(''cope'', ''ds_cope'', ''DerivativesDataSink'', Some (PStr output_dir), Some (PStr ''cope''),
       [(''datasource'', ''bold'')]),
      (''varcope'', ''ds_varcope'', ''DerivativesDataSink'', Some (PStr output_dir), Some (PStr ''varcope''),
       [(''datasource'', ''bold'')]),
      (''zstat'', ''ds_zstat'', ''DerivativesDataSink'', Some (PStr output_dir), Some (PStr ''zstat''),
       [(''datasource'', ''bold'')]),
      (''tstat'', ''ds_tstat'', ''DerivativesDataSink'', Some (PStr output_dir), Some (PStr ''tstat''),
       [(''datasource'', ''bold'')])]"
    by (simp add: staged_def feeds_def first_level_wf_def Let_def Node_def derivatives_sink_def)
  show "map (\<lambda>n. iterables n)
        (filter (\<lambda>n. node_name n = ''datasource'') (wf_nodes (first_level_wf in_files output_dir fwhm name)))
     = [Some (''sub'', sort (map fst in_files))]"
    by (simp add: first_level_wf_def wf_nodes_def Let_def Node_def derivatives_sink_def)
  show "map node_name (filter (\<lambda>n. interface n = ''SelectFiles'')
                          (wf_nodes (first_level_wf in_files output_dir fwhm name)))
     = [''feat_select'']"
    by (simp add: first_level_wf_def wf_nodes_def Let_def Node_def derivatives_sink_def)
  show "feeds (first_level_wf in_files output_dir fwhm name) ''feat_select'' ''base_directory''
     = [(''feat_fit'', ''feat_dir'')]"
    by (simp add: feeds_def first_level_wf_def Let_def Node_def derivatives_sink_def)
  show "map interface (filter (\<lambda>n. node_name n = ''feat_fit'')
                          (wf_nodes (first_level_wf in_files output_dir fwhm name)))
     = [''FEAT'']"
    by (simp add: first_level_wf_def wf_nodes_def Let_def Node_def derivatives_sink_def)
qed

text \<open>
  C3, as stated, fails: pe is among the selected result types and no sink receives it.
\<close>

theorem pe_selected_not_staged:
  "''pe'' \<in> fst ` set (selected_templates (first_level_wf [] ''derivatives'' 6 ''wf_1st_level''))
   \<and> ''pe'' \<notin> fst ` set (staged (first_level_wf [] ''derivatives'' 6 ''wf_1st_level''))"
  by (simp add: staged_def first_level_wf_def Let_def Node_def derivatives_sink_def
      selected_templates_def wf_nodes_def)

end
